theory Spec2Isabelle
  imports Complex_Main "HOL-Library.Sublist" "HOL-Library.AList"
begin

section \<open>Python strings\<close>

text \<open>
  Python \<open>str\<close> values are modelled as \<open>string\<close>: a character is a code point below
  256, the Latin-1 range of Unicode.  On this range \<open>str.lower()\<close> moves \<open>A\<close>..\<open>Z\<close> and
  the accented capitals U+00C0..U+00DE (the multiplication sign U+00D7 apart) up by
  32 and leaves every other character alone; the result stays in the range.
  \<open>str.upper()\<close> moves \<open>a\<close>..\<open>z\<close> and U+00E0..U+00FE (the division sign U+00F7 apart)
  down by 32 and writes \<open>SS\<close> for the sharp s U+00DF; at the micro sign U+00B5 and at
  the y with diaeresis U+00FF its result leaves the range, and the model has none.
  \<open>k in s\<close> on strings is contiguous containment; the empty string is contained in
  every string.
\<close>

definition char_lower :: "char \<Rightarrow> char" where
  "char_lower c =
     (let n = (of_char c :: nat)
      in if (65 \<le> n \<and> n \<le> 90) \<or> (192 \<le> n \<and> n \<le> 222 \<and> n \<noteq> 215)
         then char_of (n + 32) else c)"

definition str_lower :: "string \<Rightarrow> string" where
  "str_lower s = map char_lower s"



fun str_contains :: "string \<Rightarrow> string \<Rightarrow> bool" where
  "str_contains [] k = (k = [])"
| "str_contains (c # cs) k = (prefix k (c # cs) \<or> str_contains cs k)"

fun nat_digits :: "nat \<Rightarrow> string" where
  "nat_digits n =
     (if n < 10 then [char_of (48 + n)]
      else nat_digits (n div 10) @ [char_of (48 + n mod 10)])"

definition str_int :: "int \<Rightarrow> string" where
  "str_int i = (if i < 0 then CHR ''-'' # nat_digits (nat (- i)) else nat_digits (nat i))"


section \<open>Data model (models/rule.py, models/validation.py)\<close>

text \<open>
  The enums are string-valued in the source; \<open>tier_value\<close> gives the string of a
  tier.  The models set \<open>use_enum_values\<close>: a validated enum field holds the string of
  the enum, not the member, so a value of an enum datatype in a record stands for
  that string, and reading \<open>.value\<close> from it raises \<open>AttributeError\<close>.  A default is
  not validated: \<open>Rule.status\<close> holds the member \<open>RuleStatus.ACTIVE\<close> when the rule
  was built without a status, and a string when it was built with one.  The fields
  \<open>tier\<close>, \<open>rule_type\<close>, \<open>severity\<close> and \<open>enforcement_level\<close> of a rule have no default
  and always hold strings.  Comparisons with \<open>==\<close> between a string and a member of a
  string-valued enum hold when the strings agree.
  The records keep the fields that the modelled functions read or write.
  Timestamps, request ids, content hashes and the copy of the context stored in a
  violation are left out: no modelled function reads them back.  The field \<open>id\<close> of a
  rule is called \<open>ident\<close>, the field \<open>keywords\<close> of a pattern \<open>pattern_keywords\<close>.
\<close>

datatype RuleTier = SAFETY | OPERATIONAL | PREFERENCE

fun tier_value :: "RuleTier \<Rightarrow> string" where
  "tier_value SAFETY = ''safety''"
| "tier_value OPERATIONAL = ''operational''"
| "tier_value PREFERENCE = ''preference''"

datatype EnforcementLevel = STRICT | ADVISORY | ADAPTIVE | FALLBACK

datatype RuleType = CONTENT_FILTERING | PATTERN_MATCHING | SEMANTIC_ANALYSIS
  | STRUCTURAL_VALIDATION | COMPLIANCE_CHECK | QUALITY_ASSESSMENT | CUSTOM

datatype RuleSeverity = LOW | MEDIUM | HIGH | CRITICAL

datatype RuleStatus = ACTIVE | INACTIVE | DEPRECATED | TESTING

datatype 'a enum_field = Member 'a | Stored 'a

datatype ViolationType = KEYWORD_MATCH | REGEX_MATCH | SEMANTIC_VIOLATION
  | STRUCTURAL_VIOLATION | COMPLIANCE_VIOLATION | QUALITY_VIOLATION | CUSTOM_VIOLATION

datatype ActionTaken = NONE | WARNING | SUGGESTION | BLOCK | REDACT | QUARANTINE | ESCALATE

record RulePattern =
  pattern_type :: RuleType
  pattern_keywords :: "string list"
  regex_patterns :: "string list"

record Rule =
  ident :: string
  name :: string
  description :: string
  tier :: RuleTier
  rule_type :: RuleType
  severity :: RuleSeverity
  status :: "RuleStatus enum_field"
  patterns :: "RulePattern list"
  enforcement_level :: EnforcementLevel
  auto_block :: bool
  user_override :: bool
  tags :: "string list"
  priority :: int

text \<open>
  \<open>RuleContext.get_effective_context()\<close> always has the keys \<open>domain\<close> and
  \<open>user_role\<close>, each \<open>None\<close> or a string; these two entries are all that the modelled
  code reads from a context.  \<open>ctx_hash\<close> is the text of \<open>hash(str(context))\<close>, which
  the result cache puts into its keys.
\<close>

record RuleContext =
  domain :: "string option"
  user_role :: "string option"
  ctx_hash :: string

record Violation =
  rule_id :: string
  rule_name :: string
  rule_tier :: RuleTier
  rule_severity :: RuleSeverity
  violation_type :: ViolationType
  matched_content :: "string option"
  matched_patterns :: "string list"
  confidence_score :: real
  action_taken :: ActionTaken
  blocked :: bool
  user_override_allowed :: bool
  explanation :: string

record Suggestion =
  suggestion_type :: string
  title :: string
  suggestion_description :: string
  suggestion_confidence :: real
  source_rule :: string
  auto_applicable :: bool
  user_approval_required :: bool

record ValidationResult =
  valid :: bool
  total_score :: real
  confidence :: real
  total_rules_evaluated :: nat
  rules_triggered :: nat
  rules_violated :: nat
  violations :: "Violation list"
  critical_violations :: "Violation list"
  warnings :: "Violation list"
  suggestions :: "Suggestion list"

definition is_critical :: "Violation \<Rightarrow> bool" where
  "is_critical v = (rule_severity v = CRITICAL)"

definition is_blocked :: "ValidationResult \<Rightarrow> bool" where
  "is_blocked r = list_ex blocked (violations r)"

text \<open>Exceptions are values; \<open>error_str\<close> is \<open>str(e)\<close>.\<close>

datatype error = TypeError string | NameError string | AttributeError string
  | RepositoryError string

fun error_str :: "error \<Rightarrow> string" where
  "error_str (TypeError m) = m"
| "error_str (AttributeError m) = m"
| "error_str (NameError n) = ''name '' @ [CHR 0x27] @ n @ [CHR 0x27] @ '' is not defined''"
| "error_str (RepositoryError m) = m"

text \<open>Reading \<open>.value\<close>: the value of a member, an exception on a string.\<close>

fun dot_value :: "'a enum_field \<Rightarrow> error + 'a" where
  "dot_value (Member x) = Inr x"
| "dot_value (Stored x) =
     Inl (AttributeError ([CHR 0x27] @ ''str'' @ [CHR 0x27] @ '' object has no attribute ''
                          @ [CHR 0x27] @ ''value'' @ [CHR 0x27]))"

section \<open>Keyword matching\<close>

text \<open>
  The same two nested loops stand in the three enforcers and in
  \<open>RuleEngine._evaluate_single_rule\<close>: over the patterns of the rule, and, for a
  pattern with a non-empty keyword list, over its keywords; the first keyword whose
  lower-cased text is contained in the lower-cased content is the match.
\<close>

fun match_keywords :: "string \<Rightarrow> string list \<Rightarrow> string option" where
  "match_keywords content_lower [] = None"
| "match_keywords content_lower (keyword # ks) =
     (if str_contains content_lower (str_lower keyword) then Some keyword
      else match_keywords content_lower ks)"

fun match_patterns :: "string \<Rightarrow> RulePattern list \<Rightarrow> string option" where
  "match_patterns content [] = None"
| "match_patterns content (pattern # ps) =
     (if pattern_keywords pattern \<noteq> []
      then (case match_keywords (str_lower content) (pattern_keywords pattern) of
              Some keyword \<Rightarrow> Some keyword
            | None \<Rightarrow> match_patterns content ps)
      else match_patterns content ps)"

text \<open>
  What it means that a pattern of the rule matches the content, said without the
  loops: some keyword of some pattern occurs in the content, letter case aside.
\<close>

definition pattern_matches :: "Rule \<Rightarrow> string \<Rightarrow> bool" where
  "pattern_matches rule content =
     list_ex (\<lambda>p. list_ex (\<lambda>k. str_contains (str_lower content) (str_lower k))
                     (pattern_keywords p))
             (patterns rule)"

section \<open>Enforcement handlers (rule\_engines/enforcement)\<close>

record StrictEnforcer =
  strict_enforcement_count :: nat
  strict_block_count :: nat

definition StrictEnforcer_enforce ::
  "StrictEnforcer \<Rightarrow> Rule \<Rightarrow> string \<Rightarrow> Violation option \<times> StrictEnforcer" where
  "StrictEnforcer_enforce self rule content =
     (let self1 = self\<lparr>strict_enforcement_count := strict_enforcement_count self + 1\<rparr>
      in case match_patterns content (patterns rule) of
           Some keyword \<Rightarrow>
             (Some \<lparr> rule_id = ident rule,
                     rule_name = name rule,
                     rule_tier = tier rule,
                     rule_severity = CRITICAL,
                     violation_type = KEYWORD_MATCH,
                     matched_content = Some keyword,
                     matched_patterns = [keyword],
                     confidence_score = 0.95,
                     action_taken = BLOCK,
                     blocked = True,
                     user_override_allowed = False,
                     explanation = ''Strict enforcement: '' @ description rule \<rparr>,
              self1\<lparr>strict_block_count := strict_block_count self1 + 1\<rparr>)
         | None \<Rightarrow> (None, self1))"





record FallbackHandler =
  fallback_count :: nat

definition FallbackHandler_handle_failure ::
  "FallbackHandler \<Rightarrow> Rule \<Rightarrow> string \<Rightarrow> string \<Rightarrow> Violation option \<times> FallbackHandler" where
  "FallbackHandler_handle_failure self rule content err =
     (let self1 = self\<lparr>fallback_count := fallback_count self + 1\<rparr>
      in if tier rule = SAFETY
         then (Some \<lparr> rule_id = ''fallback_'' @ ident rule,
                      rule_name = ''Fallback: '' @ name rule,
                      rule_tier = tier rule,
                      rule_severity = HIGH,
                      violation_type = CUSTOM_VIOLATION,
                      matched_content = Some [],
                      matched_patterns = [],
                      confidence_score = 0.5,
                      action_taken = WARNING,
                      blocked = False,
                      user_override_allowed = True,
                      explanation = ''Rule enforcement failed. Error: '' @ err \<rparr>,
               self1)
         else (None, self1))"

section \<open>Tier engines (core/tiered\_rules)\<close>

record RuleEvaluationRequest =
  content :: string
  request_context :: "RuleContext option"
  rule_ids :: "string list option"
  request_tier :: "RuleTier option"
  rule_types :: "RuleType list option"
  early_termination :: bool

definition empty_lists_result :: "bool \<Rightarrow> real \<Rightarrow> real \<Rightarrow> ValidationResult" where
  "empty_lists_result v s c =
     \<lparr> valid = v, total_score = s, confidence = c,
       total_rules_evaluated = 0, rules_triggered = 0, rules_violated = 0,
       violations = [], critical_violations = [], warnings = [], suggestions = [] \<rparr>"

subsection \<open>safety\_engine.py\<close>

record SafetyRuleEngine =
  safety_evaluation_count :: nat
  safety_block_count :: nat

definition safety_patterns :: "(string \<times> RuleSeverity \<times> string) list" where
  "safety_patterns =
     [(''child exploitation'', CRITICAL, ''child_safety''),
      (''how to make a bomb'', CRITICAL, ''dangerous_content''),
      (''create weapon'', HIGH, ''weapons''),
      (''malware code'', HIGH, ''malicious_code'')]"

fun safety_scan ::
  "string \<Rightarrow> (string \<times> RuleSeverity \<times> string) list
     \<Rightarrow> ValidationResult \<times> SafetyRuleEngine \<Rightarrow> ValidationResult \<times> SafetyRuleEngine" where
  "safety_scan content_lower [] acc = acc"
| "safety_scan content_lower ((pattern, sev, category) # rest) (result, self) =
     (if str_contains content_lower pattern
      then (let violation =
                  \<lparr> rule_id = ''safety_'' @ category,
                    rule_name = ''Safety Rule: '' @ category,
                    rule_tier = SAFETY,
                    rule_severity = sev,
                    violation_type = KEYWORD_MATCH,
                    matched_content = Some pattern,
                    matched_patterns = [pattern],
                    confidence_score = 0.95,
                    action_taken = BLOCK,
                    blocked = True,
                    user_override_allowed = False,
                    explanation = ''Safety violation detected: '' @ category \<rparr>
            in safety_scan content_lower rest
                 (result\<lparr> violations := violations result @ [violation],
                           critical_violations := critical_violations result @ [violation],
                           valid := False \<rparr>,
                  self\<lparr> safety_block_count := safety_block_count self + 1 \<rparr>))
      else safety_scan content_lower rest (result, self))"

definition SafetyRuleEngine_evaluate ::
  "SafetyRuleEngine \<Rightarrow> RuleEvaluationRequest \<Rightarrow> ValidationResult \<times> SafetyRuleEngine" where
  "SafetyRuleEngine_evaluate self request =
     (case safety_scan (str_lower (content request)) safety_patterns
             (empty_lists_result True 1.0 1.0, self) of
        (result, self1) \<Rightarrow>
          (result\<lparr> total_rules_evaluated := length safety_patterns,
                    rules_triggered := length (violations result) \<rparr>,
           self1\<lparr> safety_evaluation_count := safety_evaluation_count self1 + 1 \<rparr>))"

subsection \<open>operational\_engine.py\<close>

record OperationalRuleEngine =
  operational_evaluation_count :: nat
  operational_warning_count :: nat

definition operational_patterns :: "(string \<times> RuleSeverity \<times> string \<times> ActionTaken) list" where
  "operational_patterns =
     [(''copyright violation'', MEDIUM, ''copyright'', WARNING),
      (''personal information'', HIGH, ''pii'', BLOCK),
      (''inappropriate language'', LOW, ''language'', WARNING)]"

fun operational_scan ::
  "string \<Rightarrow> (string \<times> RuleSeverity \<times> string \<times> ActionTaken) list
     \<Rightarrow> ValidationResult \<times> OperationalRuleEngine
     \<Rightarrow> ValidationResult \<times> OperationalRuleEngine" where
  "operational_scan content_lower [] acc = acc"
| "operational_scan content_lower ((pattern, sev, category, action) # rest) (result, self) =
     (if str_contains content_lower pattern
      then (let violation =
                  \<lparr> rule_id = ''operational_'' @ category,
                    rule_name = ''Operational Rule: '' @ category,
                    rule_tier = OPERATIONAL,
                    rule_severity = sev,
                    violation_type = COMPLIANCE_VIOLATION,
                    matched_content = Some pattern,
                    matched_patterns = [pattern],
                    confidence_score = 0.85,
                    action_taken = action,
                    blocked = (action = BLOCK),
                    user_override_allowed = True,
                    explanation = ''Operational guideline: '' @ category \<rparr>;
                r1 = result\<lparr> violations := violations result @ [violation] \<rparr>;
                r2 = (if action = WARNING then r1\<lparr> warnings := warnings r1 @ [violation] \<rparr>
                      else r1);
                r3 = (if action = BLOCK then r2\<lparr> valid := False \<rparr> else r2)
            in operational_scan content_lower rest
                 (r3, self\<lparr> operational_warning_count := operational_warning_count self + 1 \<rparr>))
      else operational_scan content_lower rest (result, self))"

definition OperationalRuleEngine_evaluate ::
  "OperationalRuleEngine \<Rightarrow> RuleEvaluationRequest
     \<Rightarrow> ValidationResult \<times> OperationalRuleEngine" where
  "OperationalRuleEngine_evaluate self request =
     (case operational_scan (str_lower (content request)) operational_patterns
             (empty_lists_result True 1.0 0.9, self) of
        (result, self1) \<Rightarrow>
          (result\<lparr> total_rules_evaluated := length operational_patterns,
                    rules_triggered := length (violations result) \<rparr>,
           self1\<lparr> operational_evaluation_count := operational_evaluation_count self1 + 1 \<rparr>))"

subsection \<open>preference\_engine.py\<close>

record PreferenceRuleEngine =
  preference_evaluation_count :: nat
  preference_suggestion_count :: nat

definition preference_patterns :: "(string \<times> string \<times> string) list" where
  "preference_patterns =
     [(''informal tone'', ''tone'', ''Consider using a more professional tone''),
      (''no formatting'', ''formatting'', ''Add proper formatting for better readability'')]"

fun preference_scan ::
  "string \<Rightarrow> (string \<times> string \<times> string) list
     \<Rightarrow> ValidationResult \<times> PreferenceRuleEngine
     \<Rightarrow> ValidationResult \<times> PreferenceRuleEngine" where
  "preference_scan content_lower [] acc = acc"
| "preference_scan content_lower ((pattern, category, suggestion_text) # rest) (result, self) =
     (if str_contains content_lower pattern
      then (let suggestion =
                  \<lparr> suggestion_type = ''preference'',
                    title = ''Preference: '' @ category,
                    suggestion_description = suggestion_text,
                    suggestion_confidence = 0.75,
                    source_rule = ''preference_'' @ category,
                    auto_applicable = False,
                    user_approval_required = True \<rparr>
            in preference_scan content_lower rest
                 (result\<lparr> suggestions := suggestions result @ [suggestion] \<rparr>,
                  self\<lparr> preference_suggestion_count := preference_suggestion_count self + 1 \<rparr>))
      else preference_scan content_lower rest (result, self))"

definition PreferenceRuleEngine_evaluate ::
  "PreferenceRuleEngine \<Rightarrow> RuleEvaluationRequest
     \<Rightarrow> ValidationResult \<times> PreferenceRuleEngine" where
  "PreferenceRuleEngine_evaluate self request =
     (case preference_scan (str_lower (content request)) preference_patterns
             (empty_lists_result True 1.0 0.8, self) of
        (result, self1) \<Rightarrow>
          (result\<lparr> total_rules_evaluated := length preference_patterns \<rparr>,
           self1\<lparr> preference_evaluation_count := preference_evaluation_count self1 + 1 \<rparr>))"

section \<open>Conflict resolution: rules as dictionaries\<close>

text \<open>
  The conflict detectors and resolvers receive rules as \<open>Dict[str, Any]\<close> and read
  the keys \<open>id\<close>, \<open>tier\<close> and \<open>priority\<close> with \<open>dict.get\<close> and a default.  A missing
  key is \<open>None\<close> here; tiers are plain strings, priorities are Python ints.
\<close>

record rule_dict =
  d_id :: "string option"
  d_tier :: "string option"
  d_priority :: "int option"

definition get_or :: "'a option \<Rightarrow> 'a \<Rightarrow> 'a" where
  "get_or v d = (case v of None \<Rightarrow> d | Some x \<Rightarrow> x)"

subsection \<open>priority\_based.py\<close>

record ResolutionResult =
  winning_rule_id :: string
  losing_rule_id :: string
  strategy :: string
  reason :: string

text \<open>\<open>self.tier_weights.get(tier, 0)\<close> on the table built in \<open>__init__\<close>.\<close>

definition tier_weights :: "string \<Rightarrow> int" where
  "tier_weights t =
     (if t = ''safety'' then 1000
      else if t = ''operational'' then 500
      else if t = ''preference'' then 100
      else 0)"

definition resolve :: "rule_dict \<Rightarrow> rule_dict \<Rightarrow> ResolutionResult" where
  "resolve rule_1 rule_2 =
     (let tier_1 = get_or (d_tier rule_1) ''preference'';
          tier_2 = get_or (d_tier rule_2) ''preference'';
          weight_1 = tier_weights tier_1;
          weight_2 = tier_weights tier_2;
          priority_1 = get_or (d_priority rule_1) 100;
          priority_2 = get_or (d_priority rule_2) 100;
          score_1 = weight_1 + (1000 - priority_1);
          score_2 = weight_2 + (1000 - priority_2)
      in if score_1 > score_2
         then \<lparr> winning_rule_id = get_or (d_id rule_1) ''unknown'',
                losing_rule_id = get_or (d_id rule_2) ''unknown'',
                strategy = ''priority_based'',
                reason = ''Higher priority: '' @ tier_1 @ '' tier with priority ''
                           @ str_int priority_1 \<rparr>
         else \<lparr> winning_rule_id = get_or (d_id rule_2) ''unknown'',
                losing_rule_id = get_or (d_id rule_1) ''unknown'',
                strategy = ''priority_based'',
                reason = ''Higher priority: '' @ tier_2 @ '' tier with priority ''
                           @ str_int priority_2 \<rparr>)"

text \<open>
  The score as the specification words it: tier weight (Safety 1000, Operational 500,
  Preference 100) plus \<open>1000 - priority\<close>, for a rule whose tier and priority are
  present.
\<close>

fun spec_tier_weight :: "RuleTier \<Rightarrow> int" where
  "spec_tier_weight SAFETY = 1000"
| "spec_tier_weight OPERATIONAL = 500"
| "spec_tier_weight PREFERENCE = 100"

definition spec_score :: "RuleTier \<Rightarrow> int \<Rightarrow> int" where
  "spec_score t p = spec_tier_weight t + (1000 - p)"

definition mk_rule_dict :: "string \<Rightarrow> RuleTier \<Rightarrow> int \<Rightarrow> rule_dict" where
  "mk_rule_dict i t p = \<lparr> d_id = Some i, d_tier = Some (tier_value t), d_priority = Some p \<rparr>"

subsection \<open>priority\_conflict\_detector.py\<close>

record PriorityConflict =
  rule_1_id :: string
  rule_2_id :: string
  tier_1 :: string
  tier_2 :: string
  description :: string

definition detect_priority_conflict :: "rule_dict \<Rightarrow> rule_dict \<Rightarrow> PriorityConflict option" where
  "detect_priority_conflict rule_1 rule_2 =
     (let t1 = get_or (d_tier rule_1) ''preference'';
          t2 = get_or (d_tier rule_2) ''preference''
      in if t1 = t2
         then (let priority_1 = get_or (d_priority rule_1) 100;
                   priority_2 = get_or (d_priority rule_2) 100
               in if abs (priority_1 - priority_2) > 50
                  then Some \<lparr> rule_1_id = get_or (d_id rule_1) ''unknown'',
                              rule_2_id = get_or (d_id rule_2) ''unknown'',
                              tier_1 = t1,
                              tier_2 = t2,
                              description = ''Large priority gap: '' @ str_int priority_1
                                              @ '' vs '' @ str_int priority_2 \<rparr>
                  else None)
         else None)"

section \<open>Rule engine (core/rule\_engine.py)\<close>

subsection \<open>Single-rule evaluation\<close>

text \<open>
  \<open>Rule.is_applicable_to_context\<close> on an effective context.  The dictionary is never
  empty and always has both keys, so both tag checks run.  The domain check compares
  with \<open>==\<close> and cannot fail; the role check evaluates \<open>role in context['user_role']\<close>,
  which raises \<open>TypeError\<close> when the stored role is \<open>None\<close> and the rule has a
  \<open>role:\<close> tag.  \<open>tag.split(':', 1)[1]\<close> is the tag without its prefix.
\<close>

definition is_applicable_to_context :: "Rule \<Rightarrow> RuleContext \<Rightarrow> error + bool" where
  "is_applicable_to_context rule ctx =
     (let rule_domains = filter (prefix ''domain:'') (tags rule)
      in if rule_domains \<noteq> [] \<and> \<not> list_ex (\<lambda>tag. Some (drop 7 tag) = domain ctx) rule_domains
         then Inr False
         else (let rule_roles = filter (prefix ''role:'') (tags rule)
               in if rule_roles = [] then Inr True
                  else (case user_role ctx of
                          None \<Rightarrow> Inl (TypeError (''argument of type '' @ [CHR 0x27] @ ''NoneType''
                                            @ [CHR 0x27] @ '' is not iterable''))
                        | Some role \<Rightarrow>
                            if \<not> list_ex (\<lambda>tag. str_contains role (drop 5 tag)) rule_roles
                            then Inr False else Inr True)))"

text \<open>
  \<open>_get_action_for_rule\<close> reads \<open>rule.enforcement_level.value\<close> in its first test.  The
  field holds the string that the constructor stored, so the read raises.
\<close>

definition get_action_for_rule :: "Rule \<Rightarrow> error + ActionTaken" where
  "get_action_for_rule rule =
     (case dot_value (Stored (enforcement_level rule)) of
        Inl e \<Rightarrow> Inl e
      | Inr level \<Rightarrow>
          Inr (if level = STRICT then BLOCK
               else if level = ADVISORY then WARNING
               else if level = ADAPTIVE then SUGGESTION
               else NONE))"

text \<open>
  The \<open>Violation(...)\<close> call on a keyword match: its arguments are evaluated in order,
  \<open>action_taken=self._get_action_for_rule(rule)\<close> among them, and an exception there
  leaves \<open>_evaluate_single_rule\<close>.
\<close>

definition keyword_violation :: "Rule \<Rightarrow> string \<Rightarrow> error + Violation" where
  "keyword_violation rule keyword =
     (case get_action_for_rule rule of
        Inl e \<Rightarrow> Inl e
      | Inr action \<Rightarrow>
          Inr \<lparr> rule_id = ident rule,
                rule_name = name rule,
                rule_tier = tier rule,
                rule_severity = severity rule,
                violation_type = KEYWORD_MATCH,
                matched_content = Some keyword,
                matched_patterns = [keyword],
                confidence_score = 0.8,
                action_taken = action,
                blocked = auto_block rule,
                user_override_allowed = user_override rule,
                explanation = ''Content contains prohibited keyword: '' @ keyword \<rparr>)"

definition evaluate_single_rule ::
  "Rule \<Rightarrow> string \<Rightarrow> RuleContext option \<Rightarrow> error + Violation option" where
  "evaluate_single_rule rule content_str ctx =
     (case (case ctx of None \<Rightarrow> Inr True | Some c \<Rightarrow> is_applicable_to_context rule c) of
        Inl e \<Rightarrow> Inl e
      | Inr False \<Rightarrow> Inr None
      | Inr True \<Rightarrow>
          (case match_patterns content_str (patterns rule) of
             None \<Rightarrow> Inr None
           | Some keyword \<Rightarrow>
               (case keyword_violation rule keyword of
                  Inl e \<Rightarrow> Inl e
                | Inr violation \<Rightarrow> Inr (Some violation))))"

text \<open>
  The loop of \<open>_evaluate_rules_directly\<close>; an exception of a rule is logged and the
  rule skipped, the \<open>AttributeError\<close> of a keyword match among them.
\<close>

fun evaluate_rules_directly ::
  "ValidationResult \<Rightarrow> Rule list \<Rightarrow> RuleEvaluationRequest \<Rightarrow> ValidationResult" where
  "evaluate_rules_directly result [] request = result"
| "evaluate_rules_directly result (rule # rest) request =
     (case evaluate_single_rule rule (content request) (request_context request) of
        Inl e \<Rightarrow> evaluate_rules_directly result rest request
      | Inr None \<Rightarrow> evaluate_rules_directly result rest request
      | Inr (Some violation) \<Rightarrow>
          (let r1 = result\<lparr> violations := violations result @ [violation] \<rparr>;
               r2 = (if is_critical violation
                     then r1\<lparr> critical_violations := critical_violations r1 @ [violation] \<rparr>
                     else r1);
               r3 = (if action_taken violation = WARNING
                     then r2\<lparr> warnings := warnings r2 @ [violation] \<rparr> else r2);
               r4 = (if blocked violation then r3\<lparr> valid := False \<rparr> else r3)
           in evaluate_rules_directly r4 rest request))"

subsection \<open>Engine state\<close>

text \<open>
  The rule manager is a collaborator: a record of its four queries, each of which may
  raise.  The engine holds the statistics (the running average of the latency is left
  out), the result cache as a dictionary in insertion order with time stamps in
  microseconds, the cache life time in seconds and the three tier engines of
  \<open>self.tier_engines\<close>, each present or absent.
\<close>

record RuleManager =
  mgr_get_rule :: "string \<Rightarrow> error + Rule option"
  mgr_get_rules_by_tier :: "RuleTier \<Rightarrow> error + Rule list"
  mgr_get_rules_by_type :: "RuleType \<Rightarrow> error + Rule list"
  mgr_get_applicable_rules :: "RuleContext \<Rightarrow> error + Rule list"

record EvaluationStats =
  total_evaluations :: nat
  successful_evaluations :: nat
  failed_evaluations :: nat
  violations_detected :: nat
  blocks_applied :: nat

record RuleEngine =
  rule_manager :: "RuleManager option"
  evaluation_stats :: EvaluationStats
  evaluation_cache :: "(string \<times> ValidationResult \<times> int) list"
  cache_ttl :: int
  safety_engine :: "SafetyRuleEngine option"
  operational_engine :: "OperationalRuleEngine option"
  preference_engine :: "PreferenceRuleEngine option"

text \<open>The engine that \<open>RuleEngine.__init__\<close> builds.\<close>

definition RuleEngine_init :: "RuleManager option \<Rightarrow> RuleEngine" where
  "RuleEngine_init mgr =
     \<lparr> rule_manager = mgr,
       evaluation_stats = \<lparr> total_evaluations = 0, successful_evaluations = 0,
                            failed_evaluations = 0, violations_detected = 0,
                            blocks_applied = 0 \<rparr>,
       evaluation_cache = [],
       cache_ttl = 300,
       safety_engine = Some \<lparr> safety_evaluation_count = 0, safety_block_count = 0 \<rparr>,
       operational_engine =
         Some \<lparr> operational_evaluation_count = 0, operational_warning_count = 0 \<rparr>,
       preference_engine =
         Some \<lparr> preference_evaluation_count = 0, preference_suggestion_count = 0 \<rparr> \<rparr>"

text \<open>
  What the engine takes from outside Python code of the repository: the first 16 hex
  digits of the SHA-256 of the content, the two readings of the clock (at the cache
  lookup and at the cache write, in microseconds) and the hash text of the context
  that \<open>request.get_context()\<close> builds when the request has none.
\<close>

record PyEnv =
  sha256_hex16 :: "string \<Rightarrow> string"
  utcnow_lookup :: int
  utcnow_store :: int
  fresh_context_hash :: string

subsection \<open>Result cache\<close>

definition cache_key :: "string \<Rightarrow> RuleContext option \<Rightarrow> string" where
  "cache_key content_hash ctx =
     content_hash @ '':'' @ (case ctx of None \<Rightarrow> ''no_context'' | Some c \<Rightarrow> ctx_hash c)"

text \<open>
  \<open>(datetime.utcnow() - timestamp).total_seconds() < self.cache_ttl\<close>: the age is a
  whole number of microseconds, the life time a whole number of seconds.  The source
  compares the age as a float of seconds; for the life time 300 that \<open>__init__\<close> sets,
  and for every life time below some 10^9 seconds, the float comparison and the exact
  one agree.
\<close>

definition get_cached_result ::
  "int \<Rightarrow> RuleEngine \<Rightarrow> string \<Rightarrow> RuleContext option
     \<Rightarrow> ValidationResult option \<times> RuleEngine" where
  "get_cached_result now self content_hash ctx =
     (let key = cache_key content_hash ctx
      in case map_of (evaluation_cache self) key of
           None \<Rightarrow> (None, self)
         | Some (result, timestamp) \<Rightarrow>
             if now - timestamp < cache_ttl self * 1000000
             then (Some result, self)
             else (None, self\<lparr> evaluation_cache := AList.delete key (evaluation_cache self) \<rparr>))"

definition cache_result ::
  "int \<Rightarrow> RuleEngine \<Rightarrow> string \<Rightarrow> RuleContext option \<Rightarrow> ValidationResult \<Rightarrow> RuleEngine" where
  "cache_result now self content_hash ctx result =
     (let key = cache_key content_hash ctx;
          cache1 = AList.update key (result, now) (evaluation_cache self)
      in if length cache1 > 1000
         then (let oldest_keys = take 100 (map fst (sort_key (\<lambda>item. snd (snd item)) cache1))
               in self\<lparr> evaluation_cache := fold AList.delete oldest_keys cache1 \<rparr>)
         else self\<lparr> evaluation_cache := cache1 \<rparr>)"

subsection \<open>Rule lookup\<close>

fun collect_rules_by_id :: "RuleManager \<Rightarrow> string list \<Rightarrow> Rule list \<Rightarrow> error + Rule list" where
  "collect_rules_by_id mgr [] rules = Inr rules"
| "collect_rules_by_id mgr (i # rest) rules =
     (case mgr_get_rule mgr i of
        Inl e \<Rightarrow> Inl e
      | Inr None \<Rightarrow> collect_rules_by_id mgr rest rules
      | Inr (Some rule) \<Rightarrow>
          (case dot_value (status rule) of
             Inl e \<Rightarrow> Inl e
           | Inr st \<Rightarrow>
               if st = ACTIVE then collect_rules_by_id mgr rest (rules @ [rule])
               else collect_rules_by_id mgr rest rules))"

fun collect_rules_by_type :: "RuleManager \<Rightarrow> RuleType list \<Rightarrow> Rule list \<Rightarrow> error + Rule list" where
  "collect_rules_by_type mgr [] rules = Inr rules"
| "collect_rules_by_type mgr (t # rest) rules =
     (case mgr_get_rules_by_type mgr t of
        Inl e \<Rightarrow> Inl e
      | Inr found \<Rightarrow> collect_rules_by_type mgr rest (rules @ found))"

definition get_applicable_rules ::
  "PyEnv \<Rightarrow> RuleEngine \<Rightarrow> RuleEvaluationRequest \<Rightarrow> error + Rule list" where
  "get_applicable_rules env self request =
     (case rule_manager self of
        None \<Rightarrow> Inr []
      | Some mgr \<Rightarrow>
          if rule_ids request \<noteq> None \<and> rule_ids request \<noteq> Some []
          then collect_rules_by_id mgr (the (rule_ids request)) []
          else (case request_tier request of
                  Some t \<Rightarrow> mgr_get_rules_by_tier mgr t
                | None \<Rightarrow>
                    if rule_types request \<noteq> None \<and> rule_types request \<noteq> Some []
                    then collect_rules_by_type mgr (the (rule_types request)) []
                    else mgr_get_applicable_rules mgr
                           (case request_context request of
                              Some c \<Rightarrow> c
                            | None \<Rightarrow> \<lparr> domain = None, user_role = None,
                                         ctx_hash = fresh_context_hash env \<rparr>)))"

subsection \<open>Tier loop\<close>

definition merge_tier_result :: "ValidationResult \<Rightarrow> ValidationResult \<Rightarrow> ValidationResult" where
  "merge_tier_result main_result tier_result =
     main_result
       \<lparr> violations := violations main_result @ violations tier_result,
         critical_violations := critical_violations main_result @ critical_violations tier_result,
         warnings := warnings main_result @ warnings tier_result,
         suggestions := suggestions main_result @ suggestions tier_result,
         valid := (if \<not> valid tier_result then False else valid main_result),
         total_score := min (total_score main_result) (total_score tier_result),
         confidence := (confidence main_result + confidence tier_result) / 2 \<rparr>"

text \<open>\<open>self.tier_engines.get(tier)\<close> and, when an engine is there, its \<open>evaluate\<close>.\<close>

fun run_tier_engine ::
  "RuleTier \<Rightarrow> RuleEngine \<Rightarrow> RuleEvaluationRequest \<Rightarrow> (ValidationResult \<times> RuleEngine) option" where
  "run_tier_engine SAFETY self request =
     (case safety_engine self of
        None \<Rightarrow> None
      | Some e \<Rightarrow> (case SafetyRuleEngine_evaluate e request of
                     (r, e') \<Rightarrow> Some (r, self\<lparr> safety_engine := Some e' \<rparr>)))"
| "run_tier_engine OPERATIONAL self request =
     (case operational_engine self of
        None \<Rightarrow> None
      | Some e \<Rightarrow> (case OperationalRuleEngine_evaluate e request of
                     (r, e') \<Rightarrow> Some (r, self\<lparr> operational_engine := Some e' \<rparr>)))"
| "run_tier_engine PREFERENCE self request =
     (case preference_engine self of
        None \<Rightarrow> None
      | Some e \<Rightarrow> (case PreferenceRuleEngine_evaluate e request of
                     (r, e') \<Rightarrow> Some (r, self\<lparr> preference_engine := Some e' \<rparr>)))"

fun group_rules :: "Rule list \<Rightarrow> (RuleTier \<rightharpoonup> Rule list) \<Rightarrow> (RuleTier \<rightharpoonup> Rule list)" where
  "group_rules [] rules_by_tier = rules_by_tier"
| "group_rules (rule # rest) rules_by_tier =
     group_rules rest
       (rules_by_tier(tier rule \<mapsto>
          (case rules_by_tier (tier rule) of None \<Rightarrow> [] | Some l \<Rightarrow> l) @ [rule]))"

text \<open>
  The loop of \<open>_evaluate_by_tiers\<close> over the tier order.  The tier engines of the model
  are total, so the \<open>except\<close> branch around \<open>tier_engine.evaluate\<close> is never taken; the
  request handed to a tier engine carries the content, the context and the ids of the
  rules of the tier.
\<close>

fun tier_loop ::
  "RuleEngine \<Rightarrow> RuleEvaluationRequest \<Rightarrow> (RuleTier \<rightharpoonup> Rule list) \<Rightarrow> ValidationResult
     \<Rightarrow> RuleTier list \<Rightarrow> ValidationResult \<times> RuleEngine" where
  "tier_loop self request rules_by_tier result [] = (result, self)"
| "tier_loop self request rules_by_tier result (t # rest) =
     (case rules_by_tier t of
        None \<Rightarrow> tier_loop self request rules_by_tier result rest
      | Some tier_rules \<Rightarrow>
          (let tier_request =
                 \<lparr> content = content request,
                   request_context = request_context request,
                   rule_ids = Some (map ident tier_rules),
                   request_tier = None,
                   rule_types = None,
                   early_termination = True \<rparr>
           in case run_tier_engine t self tier_request of
                Some (tier_result, self1) \<Rightarrow>
                  (let result1 = merge_tier_result result tier_result
                   in if t = SAFETY \<and> is_blocked result1 then (result1, self1)
                      else tier_loop self1 request rules_by_tier result1 rest)
              | None \<Rightarrow>
                  tier_loop self request rules_by_tier
                    (evaluate_rules_directly result tier_rules request) rest))"

definition evaluate_by_tiers ::
  "RuleEngine \<Rightarrow> RuleEvaluationRequest \<Rightarrow> Rule list \<Rightarrow> ValidationResult \<times> RuleEngine" where
  "evaluate_by_tiers self request rules =
     (case tier_loop self request (group_rules rules Map.empty)
             (empty_lists_result True 1.0 1.0) [SAFETY, OPERATIONAL, PREFERENCE] of
        (result, self1) \<Rightarrow>
          (result\<lparr> total_rules_evaluated := length rules,
                    rules_triggered := length (violations result),
                    rules_violated :=
                      length (filter (\<lambda>v. action_taken v \<noteq> NONE) (violations result)) \<rparr>,
           self1))"

text \<open>The loop of \<open>evaluate_tiered\<close>: every tier that the request does not filter out.\<close>

fun tiered_loop ::
  "RuleEngine \<Rightarrow> RuleEvaluationRequest \<Rightarrow> ValidationResult \<Rightarrow> RuleTier list
     \<Rightarrow> ValidationResult \<times> RuleEngine" where
  "tiered_loop self request result [] = (result, self)"
| "tiered_loop self request result (t # rest) =
     (if request_tier request \<noteq> None \<and> request_tier request \<noteq> Some t
      then tiered_loop self request result rest
      else (case run_tier_engine t self request of
              None \<Rightarrow> tiered_loop self request result rest
            | Some (tier_result, self1) \<Rightarrow>
                (let result1 = merge_tier_result result tier_result
                 in if t = SAFETY \<and> is_blocked result1 then (result1, self1)
                    else tiered_loop self1 request result1 rest)))"

definition evaluate_tiered ::
  "RuleEngine \<Rightarrow> RuleEvaluationRequest \<Rightarrow> ValidationResult \<times> RuleEngine" where
  "evaluate_tiered self request =
     tiered_loop self request (empty_lists_result True 1.0 1.0) [SAFETY, OPERATIONAL, PREFERENCE]"

subsection \<open>Results, statistics and \<open>evaluate\<close>\<close>

definition update_statistics :: "RuleEngine \<Rightarrow> ValidationResult \<Rightarrow> RuleEngine" where
  "update_statistics self result =
     (let s0 = evaluation_stats self;
          s1 = s0\<lparr> total_evaluations := total_evaluations s0 + 1 \<rparr>;
          s2 = (if valid result
                then s1\<lparr> successful_evaluations := successful_evaluations s1 + 1 \<rparr>
                else s1\<lparr> failed_evaluations := failed_evaluations s1 + 1 \<rparr>);
          s3 = (if violations result \<noteq> []
                then s2\<lparr> violations_detected := violations_detected s2 + length (violations result) \<rparr>
                else s2);
          s4 = (if is_blocked result then s3\<lparr> blocks_applied := blocks_applied s3 + 1 \<rparr> else s3)
      in self\<lparr> evaluation_stats := s4 \<rparr>)"

definition create_empty_result :: "RuleEvaluationRequest \<Rightarrow> ValidationResult" where
  "create_empty_result request = empty_lists_result True 1.0 1.0"

text \<open>
  The names that the module \<open>core/rule_engine.py\<close> binds at its top level, by its
  import statements, its \<open>logger\<close> assignment and its class definition.  A function of
  the module that reads any other global name raises \<open>NameError\<close> at that point.
\<close>

definition rule_engine_globals :: "string list" where
  "rule_engine_globals =
     [''asyncio'', ''time'',
      ''List'', ''Dict'', ''Any'', ''Optional'', ''Union'', ''Set'',
      ''datetime'', ''logging'', ''ThreadPoolExecutor'', ''TimeoutError'', ''hashlib'',
      ''Rule'', ''RuleTier'', ''RuleType'', ''RuleContext'', ''RuleEvaluationRequest'',
      ''ValidationResult'', ''Violation'', ''ViolationType'', ''ActionTaken'', ''Suggestion'',
      ''RuleConflict'', ''ConflictType'', ''ConflictResolution'', ''ResolutionStrategy'',
      ''logger'', ''RuleEngine'']"

definition load_global :: "string \<Rightarrow> error + unit" where
  "load_global n = (if n \<in> set rule_engine_globals then Inr () else Inl (NameError n))"

text \<open>
  \<open>_create_error_result\<close> builds its system-error violation from \<open>RuleTier.SAFETY\<close>,
  \<open>RuleSeverity.CRITICAL\<close>, \<open>ViolationType.CUSTOM_VIOLATION\<close> and \<open>ActionTaken.BLOCK\<close>,
  read in this order; the arguments before them cannot raise.
\<close>

definition create_error_result :: "RuleEvaluationRequest \<Rightarrow> string \<Rightarrow> error + ValidationResult" where
  "create_error_result request err =
     (case load_global ''RuleTier'' of Inl e \<Rightarrow> Inl e | Inr _ \<Rightarrow>
     (case load_global ''RuleSeverity'' of Inl e \<Rightarrow> Inl e | Inr _ \<Rightarrow>
     (case load_global ''ViolationType'' of Inl e \<Rightarrow> Inl e | Inr _ \<Rightarrow>
     (case load_global ''ActionTaken'' of Inl e \<Rightarrow> Inl e | Inr _ \<Rightarrow>
        Inr ((empty_lists_result False 0.0 0.0)
               \<lparr> violations :=
                   [\<lparr> rule_id = ''system_error'',
                      rule_name = ''System Error'',
                      rule_tier = SAFETY,
                      rule_severity = CRITICAL,
                      violation_type = CUSTOM_VIOLATION,
                      matched_content = None,
                      matched_patterns = [],
                      confidence_score = 1.0,
                      action_taken = BLOCK,
                      blocked = True,
                      user_override_allowed = False,
                      explanation = ''Evaluation failed: '' @ err \<rparr>] \<rparr>)))))"

text \<open>
  The body of the \<open>try\<close> block of \<open>evaluate\<close>: the outcome, a result or the exception
  that left the block, and the engine as the block left it.
\<close>

definition evaluate_try ::
  "PyEnv \<Rightarrow> RuleEngine \<Rightarrow> RuleEvaluationRequest \<Rightarrow> (error + ValidationResult) \<times> RuleEngine" where
  "evaluate_try env self request =
     (let content_hash = sha256_hex16 env (content request)
      in case get_cached_result (utcnow_lookup env) self content_hash (request_context request) of
           (Some cached_result, self1) \<Rightarrow> (Inr cached_result, self1)
         | (None, self1) \<Rightarrow>
             (case get_applicable_rules env self1 request of
                Inl e \<Rightarrow> (Inl e, self1)
              | Inr applicable_rules \<Rightarrow>
                  if applicable_rules = [] then (Inr (create_empty_result request), self1)
                  else (case evaluate_by_tiers self1 request applicable_rules of
                          (result, self2) \<Rightarrow>
                            (Inr result,
                             cache_result (utcnow_store env) (update_statistics self2 result)
                               content_hash (request_context request) result))))"

text \<open>
  \<open>evaluate\<close>: an exception of the body is caught, counted as a failed evaluation and
  answered with \<open>_create_error_result\<close>; an exception raised by that call inside the
  handler leaves \<open>evaluate\<close>.
\<close>

definition evaluate ::
  "PyEnv \<Rightarrow> RuleEngine \<Rightarrow> RuleEvaluationRequest \<Rightarrow> (error + ValidationResult) \<times> RuleEngine" where
  "evaluate env self request =
     (case evaluate_try env self request of
        (Inr result, self1) \<Rightarrow> (Inr result, self1)
      | (Inl e, self1) \<Rightarrow>
          (create_error_result request (error_str e),
           self1\<lparr> evaluation_stats :=
                    (evaluation_stats self1)
                      \<lparr> failed_evaluations := failed_evaluations (evaluation_stats self1) + 1 \<rparr> \<rparr>))"

section \<open>Letter case and sample rules\<close>



text \<open>
  A Safety rule and a Preference rule in the style of the repository's examples.
  Both pass the rule validation of the rule manager: the Safety rule is strict and
  declares no user override.  Both are built without a status.
\<close>

definition weapons_rule :: Rule where
  "weapons_rule =
     \<lparr> ident = ''safety_001'', name = ''Dangerous weapons'',
       description = ''Blocks instructions for dangerous weapons'',
       tier = SAFETY, rule_type = CONTENT_FILTERING, severity = CRITICAL,
       status = Member ACTIVE,
       patterns = [\<lparr> pattern_type = CONTENT_FILTERING,
                      pattern_keywords = [''dangerous weapons''], regex_patterns = [] \<rparr>],
       enforcement_level = STRICT, auto_block = True, user_override = False,
       tags = [], priority = 10 \<rparr>"

definition tone_rule :: Rule where
  "tone_rule =
     \<lparr> ident = ''pref_001'', name = ''Informal tone'',
       description = ''Suggests a professional tone'',
       tier = PREFERENCE, rule_type = QUALITY_ASSESSMENT, severity = LOW,
       status = Member ACTIVE,
       patterns = [\<lparr> pattern_type = QUALITY_ASSESSMENT,
                      pattern_keywords = [''informal tone''], regex_patterns = [] \<rparr>],
       enforcement_level = ADAPTIVE, auto_block = False, user_override = True,
       tags = [], priority = 900 \<rparr>"



section \<open>Sample requests and engines\<close>

definition plain_request :: "string \<Rightarrow> RuleEvaluationRequest" where
  "plain_request c =
     \<lparr> content = c, request_context = None, rule_ids = None, request_tier = None,
       rule_types = None, early_termination = True \<rparr>"


definition weapons_request :: RuleEvaluationRequest where
  "weapons_request = plain_request ''How to make dangerous weapons in an informal tone''"

text \<open>A rule manager whose store cannot be reached: every query raises.\<close>

definition failing_manager :: RuleManager where
  "failing_manager =
     \<lparr> mgr_get_rule = (\<lambda>i. Inl (RepositoryError ''rule store unavailable'')),
       mgr_get_rules_by_tier = (\<lambda>t. Inl (RepositoryError ''rule store unavailable'')),
       mgr_get_rules_by_type = (\<lambda>t. Inl (RepositoryError ''rule store unavailable'')),
       mgr_get_applicable_rules = (\<lambda>c. Inl (RepositoryError ''rule store unavailable'')) \<rparr>"

text \<open>An engine with one cached result, stored at time 0.\<close>

definition cached_engine :: RuleEngine where
  "cached_engine =
     (RuleEngine_init None)
       \<lparr> evaluation_cache :=
           [(''0123456789abcdef:no_context'', (empty_lists_result True 1.0 1.0, 0))] \<rparr>"

text \<open>
  The tier loop stopped after the Safety tier: the Operational and Preference engines
  are as they were before the request (each run of an engine moves its evaluation
  counter), the result has no suggestion and no violation of another tier, and its
  critical violations are blocking Safety violations, at least one.
\<close>

definition stopped_after_safety :: "RuleEngine \<Rightarrow> ValidationResult \<times> RuleEngine \<Rightarrow> bool" where
  "stopped_after_safety self out =
     (operational_engine (snd out) = operational_engine self \<and>
      preference_engine (snd out) = preference_engine self \<and>
      suggestions (fst out) = [] \<and>
      list_all (\<lambda>v. rule_tier v = SAFETY) (violations (fst out)) \<and>
      critical_violations (fst out) \<noteq> [] \<and>
      list_all (\<lambda>v. rule_tier v = SAFETY \<and> blocked v) (critical_violations (fst out)))"



section \<open>Priority-based resolution\<close>

lemma tier_weights_value: "tier_weights (tier_value t) = spec_tier_weight t"
  by (cases t) (simp_all add: tier_weights_def)

lemma tier_weights_literals:
  "tier_weights ''safety'' = 1000"
  "tier_weights ''operational'' = 500"
  "tier_weights ''preference'' = 100"
  by (simp_all add: tier_weights_def)

lemma resolve_winner:
  "winning_rule_id (resolve r1 r2) =
     (if tier_weights (get_or (d_tier r1) ''preference'') + (1000 - get_or (d_priority r1) 100)
          > tier_weights (get_or (d_tier r2) ''preference'') + (1000 - get_or (d_priority r2) 100)
      then get_or (d_id r1) ''unknown'' else get_or (d_id r2) ''unknown'')"
  by (simp add: resolve_def Let_def)

text \<open>
  C3 (as stated in the specification, refuted): with equal scores the resolver is said
  to return rule A, the first argument.  At two Preference rules of priority 100 named
  \<open>A\<close> and \<open>B\<close> the scores are both 1000 and the winner is \<open>B\<close>.
\<close>

theorem resolve_tie_counterexample:
  "spec_score PREFERENCE 100 = spec_score PREFERENCE 100 \<and>
   winning_rule_id (resolve (mk_rule_dict ''A'' PREFERENCE 100) (mk_rule_dict ''B'' PREFERENCE 100))
     \<noteq> ''A''"
  by (simp add: resolve_winner mk_rule_dict_def get_or_def tier_weights_def)

text \<open>
  C3 (amended): for every pair of rules whose priority-based scores are equal, the
  resolver returns rule B, the second argument, as the winner and rule A as the loser.
\<close>

theorem resolve_tie_second:
  "spec_score t1 p1 = spec_score t2 p2 \<Longrightarrow>
   winning_rule_id (resolve (mk_rule_dict a t1 p1) (mk_rule_dict b t2 p2)) = b \<and>
   losing_rule_id (resolve (mk_rule_dict a t1 p1) (mk_rule_dict b t2 p2)) = a"
  by (simp add: resolve_def Let_def mk_rule_dict_def get_or_def tier_weights_value spec_score_def)

theorem resolve_tie_second_witness:
  "spec_score SAFETY 600 = spec_score OPERATIONAL 100 \<and>
   winning_rule_id (resolve (mk_rule_dict ''A'' SAFETY 600) (mk_rule_dict ''B'' OPERATIONAL 100)) = ''B'' \<and>
   losing_rule_id (resolve (mk_rule_dict ''A'' SAFETY 600) (mk_rule_dict ''B'' OPERATIONAL 100)) = ''A''"
proof -
  have h: "spec_score SAFETY 600 = spec_score OPERATIONAL 100"
    by (simp add: spec_score_def)
  show ?thesis
    using h resolve_tie_second [OF h, where a = "''A''" and b = "''B''"] by simp
qed

text \<open>
  C7: the resolver's winner is decided by the score \<open>tier_weight + (1000 - priority)\<close>
  with weights Safety 1000, Operational 500, Preference 100: the rule with the strictly
  higher score wins, whichever argument it is.  A Safety rule of priority 10 beats a
  Preference rule of priority 900 in both argument orders.
\<close>

theorem resolve_higher_score_wins:
  "(spec_score t1 p1 > spec_score t2 p2 \<longrightarrow>
      winning_rule_id (resolve (mk_rule_dict a t1 p1) (mk_rule_dict b t2 p2)) = a \<and>
      losing_rule_id (resolve (mk_rule_dict a t1 p1) (mk_rule_dict b t2 p2)) = b) \<and>
   (spec_score t1 p1 < spec_score t2 p2 \<longrightarrow>
      winning_rule_id (resolve (mk_rule_dict a t1 p1) (mk_rule_dict b t2 p2)) = b \<and>
      losing_rule_id (resolve (mk_rule_dict a t1 p1) (mk_rule_dict b t2 p2)) = a) \<and>
   winning_rule_id (resolve (mk_rule_dict a SAFETY 10) (mk_rule_dict b PREFERENCE 900)) = a \<and>
   winning_rule_id (resolve (mk_rule_dict b PREFERENCE 900) (mk_rule_dict a SAFETY 10)) = a"
  by (simp add: resolve_def Let_def mk_rule_dict_def get_or_def tier_weights_value
      spec_score_def tier_weights_literals)

theorem resolve_higher_score_wins_witness:
  "spec_score SAFETY 10 > spec_score PREFERENCE 900 \<and>
   spec_score PREFERENCE 900 < spec_score OPERATIONAL 300 \<and>
   winning_rule_id (resolve (mk_rule_dict ''A'' SAFETY 10) (mk_rule_dict ''B'' PREFERENCE 900)) = ''A'' \<and>
   winning_rule_id (resolve (mk_rule_dict ''A'' PREFERENCE 900) (mk_rule_dict ''B'' OPERATIONAL 300)) = ''B''"
  using resolve_higher_score_wins
      [where ?t1.0 = SAFETY and ?p1.0 = 10 and ?t2.0 = PREFERENCE and ?p2.0 = 900
         and a = "''A''" and b = "''B''"]
    resolve_higher_score_wins
      [where ?t1.0 = PREFERENCE and ?p1.0 = 900 and ?t2.0 = OPERATIONAL and ?p2.0 = 300
         and a = "''A''" and b = "''B''"]
  by (simp add: spec_score_def)

section \<open>Priority-gap detection\<close>

text \<open>
  C6: the priority-gap detector reports a conflict if and only if both rules have the
  same tier and their priorities differ by strictly more than 50 (missing keys read as
  tier \<open>preference\<close> and priority 100).  Priorities 100 and 151 in one tier conflict,
  100 and 150 do not, and rules of different tiers never conflict.
\<close>

theorem detect_priority_conflict_iff:
  "(detect_priority_conflict r1 r2 \<noteq> None) =
     (get_or (d_tier r1) ''preference'' = get_or (d_tier r2) ''preference'' \<and>
      abs (get_or (d_priority r1) 100 - get_or (d_priority r2) 100) > 50)"
  by (simp add: detect_priority_conflict_def Let_def)

lemma detect_gap_51:
  "detect_priority_conflict (mk_rule_dict a t 100) (mk_rule_dict b t 151) \<noteq> None"
  by (simp add: detect_priority_conflict_def Let_def mk_rule_dict_def get_or_def)

lemma detect_gap_50:
  "detect_priority_conflict (mk_rule_dict a t 100) (mk_rule_dict b t 150) = None"
  by (simp add: detect_priority_conflict_def Let_def mk_rule_dict_def get_or_def)

lemma detect_different_tiers:
  "t1 \<noteq> t2 \<Longrightarrow> detect_priority_conflict (mk_rule_dict a t1 p1) (mk_rule_dict b t2 p2) = None"
  by (cases t1; cases t2) (simp_all add: detect_priority_conflict_def Let_def mk_rule_dict_def get_or_def)

section \<open>Keyword matching and letter case\<close>



lemma match_keywords_None:
  "(match_keywords cl ks = None) = (\<not> list_ex (\<lambda>k. str_contains cl (str_lower k)) ks)"
  by (induction ks) auto

lemma match_patterns_None:
  "(match_patterns c ps = None) =
     (\<not> list_ex (\<lambda>p. list_ex (\<lambda>k. str_contains (str_lower c) (str_lower k)) (pattern_keywords p)) ps)"
proof (induction ps)
  case Nil
  show ?case by simp
next
  case (Cons p ps)
  show ?case
  proof (cases "pattern_keywords p = []")
    case True
    with Cons show ?thesis by simp
  next
    case False
    with Cons show ?thesis
      by (cases "match_keywords (str_lower c) (pattern_keywords p)")
         (simp_all add: match_keywords_None [symmetric])
  qed
qed

lemma match_patterns_matches:
  "pattern_matches rule c \<Longrightarrow> \<exists>k. match_patterns c (patterns rule) = Some k"
  using match_patterns_None [of c "patterns rule"] by (auto simp: pattern_matches_def)










section \<open>Enforcement handlers\<close>

text \<open>
  C5: when a pattern of the rule matches the content, the strict enforcer returns a
  violation with action BLOCK, \<open>blocked\<close> set, no user override and the constant
  confidence 0.95.  The enforcer takes no context and does not read the enforcement
  level, so this holds for every rule, the Strict ones among them.
\<close>

theorem strict_enforce_blocks:
  "pattern_matches rule c \<Longrightarrow>
   (\<exists>v. fst (StrictEnforcer_enforce self rule c) = Some v \<and>
        action_taken v = BLOCK \<and> blocked v \<and> \<not> user_override_allowed v \<and>
        confidence_score v = 0.95)"
  by (auto simp: StrictEnforcer_enforce_def Let_def dest!: match_patterns_matches)

theorem strict_enforce_blocks_witness:
  "pattern_matches weapons_rule ''How to make Dangerous WEAPONS'' \<and>
   (\<exists>v. fst (StrictEnforcer_enforce \<lparr>strict_enforcement_count = 0, strict_block_count = 0\<rparr>
                weapons_rule ''How to make Dangerous WEAPONS'') = Some v \<and>
        action_taken v = BLOCK \<and> blocked v \<and> \<not> user_override_allowed v \<and>
        confidence_score v = 0.95)"
proof -
  have h: "pattern_matches weapons_rule ''How to make Dangerous WEAPONS''"
    by code_simp
  show ?thesis
    using h strict_enforce_blocks [OF h] by blast
qed

text \<open>
  C8: the fallback handler returns a WARNING violation for a rule of the Safety tier
  and nothing for a rule of any other tier, whatever the content and the error.
\<close>

theorem fallback_tier_asymmetry:
  "(tier rule = SAFETY \<longrightarrow>
      (\<exists>v. fst (FallbackHandler_handle_failure self rule c err) = Some v \<and>
           action_taken v = WARNING \<and> rule_tier v = SAFETY)) \<and>
   (tier rule \<noteq> SAFETY \<longrightarrow> fst (FallbackHandler_handle_failure self rule c err) = None)"
  by (simp add: FallbackHandler_handle_failure_def Let_def)

theorem fallback_tier_asymmetry_witness:
  "tier weapons_rule = SAFETY \<and>
   (\<exists>v. fst (FallbackHandler_handle_failure \<lparr>fallback_count = 0\<rparr> weapons_rule
                ''some content'' ''timeout'') = Some v \<and>
        action_taken v = WARNING \<and> rule_tier v = SAFETY) \<and>
   tier tone_rule \<noteq> SAFETY \<and>
   fst (FallbackHandler_handle_failure \<lparr>fallback_count = 0\<rparr> tone_rule
          ''some content'' ''timeout'') = None"
proof -
  have s: "tier weapons_rule = SAFETY" by (simp add: weapons_rule_def)
  have p: "tier tone_rule \<noteq> SAFETY" by (simp add: tone_rule_def)
  show ?thesis
    using s p
      fallback_tier_asymmetry [of weapons_rule "\<lparr>fallback_count = 0\<rparr>" "''some content''" "''timeout''"]
      fallback_tier_asymmetry [of tone_rule "\<lparr>fallback_count = 0\<rparr>" "''some content''" "''timeout''"]
    by blast
qed

section \<open>The Safety tier engine\<close>

lemma safety_scan_critical:
  "critical_violations (fst acc) = violations (fst acc) \<Longrightarrow>
   critical_violations (fst (safety_scan cl ps acc)) = violations (fst (safety_scan cl ps acc))"
  by (induction cl ps acc rule: safety_scan.induct) (simp_all add: Let_def)

lemma safety_scan_suggestions:
  "suggestions (fst (safety_scan cl ps acc)) = suggestions (fst acc)"
  by (induction cl ps acc rule: safety_scan.induct) (simp_all add: Let_def)

lemma safety_scan_violations:
  "list_all P (violations (fst acc)) \<Longrightarrow>
   (\<And>p s c. P \<lparr> rule_id = ''safety_'' @ c, rule_name = ''Safety Rule: '' @ c,
                rule_tier = SAFETY, rule_severity = s, violation_type = KEYWORD_MATCH,
                matched_content = Some p, matched_patterns = [p], confidence_score = 0.95,
                action_taken = BLOCK, blocked = True, user_override_allowed = False,
                explanation = ''Safety violation detected: '' @ c \<rparr>) \<Longrightarrow>
   list_all P (violations (fst (safety_scan cl ps acc)))"
proof (induction cl ps acc rule: safety_scan.induct)
  case (1 cl acc)
  then show ?case by simp
next
  case (2 cl pattern sev category rest result self)
  then show ?case by (simp add: Let_def)
qed

lemma safety_scan_nonempty:
  "(violations (fst (safety_scan cl ps acc)) \<noteq> []) =
     (violations (fst acc) \<noteq> [] \<or> list_ex (\<lambda>p. str_contains cl (fst p)) ps)"
  by (induction cl ps acc rule: safety_scan.induct) (simp_all add: Let_def)

lemma safety_engine_shape:
  fixes e request
  defines "sr \<equiv> fst (SafetyRuleEngine_evaluate e request)"
  shows "critical_violations sr = violations sr"
    and "suggestions sr = []"
    and "list_all (\<lambda>v. rule_tier v = SAFETY \<and> blocked v) (violations sr)"
proof -
  let ?s = "safety_scan (str_lower (content request)) safety_patterns
              (empty_lists_result True 1.0 1.0, e)"
  have sr: "sr = (fst ?s)\<lparr> total_rules_evaluated := length safety_patterns,
                           rules_triggered := length (violations (fst ?s)) \<rparr>"
    by (simp add: sr_def SafetyRuleEngine_evaluate_def case_prod_beta)
  have "critical_violations (fst ?s) = violations (fst ?s)"
    by (rule safety_scan_critical) (simp add: empty_lists_result_def)
  then show "critical_violations sr = violations sr" by (simp add: sr)
  show "suggestions sr = []"
    by (simp add: sr safety_scan_suggestions empty_lists_result_def)
  have "list_all (\<lambda>v. rule_tier v = SAFETY \<and> blocked v) (violations (fst ?s))"
    by (rule safety_scan_violations) (simp_all add: empty_lists_result_def)
  then show "list_all (\<lambda>v. rule_tier v = SAFETY \<and> blocked v) (violations sr)"
    by (simp add: sr)
qed

lemma safety_engine_blocked_iff:
  "is_blocked (fst (SafetyRuleEngine_evaluate e request)) =
     list_ex (\<lambda>p. str_contains (str_lower (content request)) (fst p)) safety_patterns"
proof -
  let ?sr = "fst (SafetyRuleEngine_evaluate e request)"
  have "is_blocked ?sr = (violations ?sr \<noteq> [])"
    using safety_engine_shape(3) [of e request]
    by (cases "violations ?sr") (simp_all add: is_blocked_def)
  also have "\<dots> = list_ex (\<lambda>p. str_contains (str_lower (content request)) (fst p)) safety_patterns"
    by (simp add: SafetyRuleEngine_evaluate_def case_prod_beta safety_scan_nonempty
        empty_lists_result_def)
  finally show ?thesis .
qed

lemma safety_engine_content:
  "content r' = content r \<Longrightarrow> SafetyRuleEngine_evaluate e r' = SafetyRuleEngine_evaluate e r"
  by (simp add: SafetyRuleEngine_evaluate_def)

section \<open>User override of Safety violations\<close>











text \<open>
  Single-rule evaluation returns no violation: a keyword match ends in the
  \<open>AttributeError\<close> of \<open>_get_action_for_rule\<close>, and direct evaluation, which catches
  it, leaves the result as it was.
\<close>

lemma evaluate_single_rule_no_violation:
  "evaluate_single_rule rule c ctx \<noteq> Inr (Some v)"
  by (auto simp: evaluate_single_rule_def keyword_violation_def get_action_for_rule_def
      split: option.splits sum.splits bool.splits)

lemma evaluate_rules_directly_skips:
  "evaluate_rules_directly result rules request = result"
proof (induction rules)
  case Nil
  show ?case by simp
next
  case (Cons rule rules)
  then show ?case
    using evaluate_single_rule_no_violation [of rule "content request" "request_context request"]
    by (auto split: sum.splits option.splits)
qed




section \<open>Failure of an evaluation\<close>

lemma create_error_result_raises:
  "create_error_result request err = Inl (NameError ''RuleSeverity'')"
  by (simp add: create_error_result_def load_global_def rule_engine_globals_def)

lemma evaluate_try_failing:
  "fst (evaluate_try env (RuleEngine_init (Some failing_manager)) (plain_request c))
     = Inl (RepositoryError ''rule store unavailable'')"
  by (simp add: evaluate_try_def get_cached_result_def RuleEngine_init_def Let_def
      get_applicable_rules_def failing_manager_def plain_request_def)

text \<open>
  C2 (the code departs from the claim): \<open>evaluate\<close> is to answer an internal failure
  with an error result and never to let an exception reach the caller.  With a rule
  manager whose lookup raises, the handler of \<open>evaluate\<close> calls
  \<open>_create_error_result\<close>, which reads the name \<open>RuleSeverity\<close> that the module never
  imports; the \<open>NameError\<close> leaves \<open>evaluate\<close>.
\<close>

theorem evaluate_propagates_exception:
  "fst (evaluate env (RuleEngine_init (Some failing_manager)) (plain_request c))
     = Inl (NameError ''RuleSeverity'')"
proof -
  obtain s where "evaluate_try env (RuleEngine_init (Some failing_manager)) (plain_request c)
     = (Inl (RepositoryError ''rule store unavailable''), s)"
    using evaluate_try_failing [of env c] by (metis fst_conv surj_pair)
  then show ?thesis
    by (simp add: evaluate_def create_error_result_raises)
qed

section \<open>Result cache\<close>

text \<open>
  C9: the cache lookup returns a result only from an entry under the key whose age
  is strictly below the life time of the cache; an entry whose age has reached the
  life time is not returned, and the lookup removes it from the cache.
\<close>

theorem cached_result_within_ttl:
  "(fst (get_cached_result now self h ctx) = Some r \<longrightarrow>
      (\<exists>ts. map_of (evaluation_cache self) (cache_key h ctx) = Some (r, ts) \<and>
            now - ts < cache_ttl self * 1000000)) \<and>
   (map_of (evaluation_cache self) (cache_key h ctx) = Some (r', ts') \<and>
    cache_ttl self * 1000000 \<le> now - ts' \<longrightarrow>
      fst (get_cached_result now self h ctx) = None \<and>
      map_of (evaluation_cache (snd (get_cached_result now self h ctx))) (cache_key h ctx) = None)"
  by (auto simp: get_cached_result_def Let_def AList.delete_conv' split: option.splits if_splits)

theorem cached_result_within_ttl_witness:
  "fst (get_cached_result 299999999 cached_engine ''0123456789abcdef'' None)
     = Some (empty_lists_result True 1.0 1.0) \<and>
   (\<exists>ts. map_of (evaluation_cache cached_engine) (cache_key ''0123456789abcdef'' None)
            = Some (empty_lists_result True 1.0 1.0, ts) \<and>
         299999999 - ts < cache_ttl cached_engine * 1000000) \<and>
   map_of (evaluation_cache cached_engine) (cache_key ''0123456789abcdef'' None)
     = Some (empty_lists_result True 1.0 1.0, 0) \<and>
   cache_ttl cached_engine * 1000000 \<le> 300000000 - 0 \<and>
   fst (get_cached_result 300000000 cached_engine ''0123456789abcdef'' None) = None \<and>
   map_of (evaluation_cache (snd (get_cached_result 300000000 cached_engine ''0123456789abcdef'' None)))
     (cache_key ''0123456789abcdef'' None) = None"
proof -
  have k: "cache_key ''0123456789abcdef'' None = ''0123456789abcdef:no_context''"
    by (simp add: cache_key_def)
  have a: "fst (get_cached_result 299999999 cached_engine ''0123456789abcdef'' None)
     = Some (empty_lists_result True 1.0 1.0)"
    by (simp add: get_cached_result_def k cached_engine_def RuleEngine_init_def)
  have b: "map_of (evaluation_cache cached_engine) (cache_key ''0123456789abcdef'' None)
     = Some (empty_lists_result True 1.0 1.0, 0)"
    by (simp add: k cached_engine_def)
  have c: "cache_ttl cached_engine * 1000000 \<le> 300000000 - 0"
    by (simp add: cached_engine_def RuleEngine_init_def)
  show ?thesis
    using a b c
      cached_result_within_ttl [of 299999999 cached_engine "''0123456789abcdef''" None
        "empty_lists_result True 1.0 1.0"]
      cached_result_within_ttl [of 300000000 cached_engine "''0123456789abcdef''" None _
        "empty_lists_result True 1.0 1.0" 0]
    by blast
qed

section \<open>Early termination of the tier loop\<close>

lemma group_rules_dom:
  "(group_rules rules m t \<noteq> None) = (m t \<noteq> None \<or> list_ex (\<lambda>r. tier r = t) rules)"
  by (induction rules arbitrary: m) auto

lemma stopped_merge:
  assumes "safety_engine self = Some e"
    and "is_blocked (fst (SafetyRuleEngine_evaluate e request))"
  shows "stopped_after_safety self
           (merge_tier_result (empty_lists_result True 1.0 1.0)
              (fst (SafetyRuleEngine_evaluate e request)),
            self\<lparr> safety_engine := Some (snd (SafetyRuleEngine_evaluate e request)) \<rparr>)"
    and "is_blocked (merge_tier_result (empty_lists_result True 1.0 1.0)
              (fst (SafetyRuleEngine_evaluate e request)))"
proof -
  let ?sr = "fst (SafetyRuleEngine_evaluate e request)"
  note sh = safety_engine_shape [of e request]
  have ne: "violations ?sr \<noteq> []"
    using assms(2) by (auto simp: is_blocked_def)
  show "is_blocked (merge_tier_result (empty_lists_result True 1.0 1.0) ?sr)"
    using assms(2) by (simp add: is_blocked_def merge_tier_result_def empty_lists_result_def)
  show "stopped_after_safety self
           (merge_tier_result (empty_lists_result True 1.0 1.0) ?sr,
            self\<lparr> safety_engine := Some (snd (SafetyRuleEngine_evaluate e request)) \<rparr>)"
    using sh ne
    by (simp add: stopped_after_safety_def merge_tier_result_def empty_lists_result_def
        list_all_iff)
qed

lemma stopped_finalize:
  "stopped_after_safety self (res, s) \<Longrightarrow>
   stopped_after_safety self
     (res\<lparr> total_rules_evaluated := a, rules_triggered := b, rules_violated := c \<rparr>, s)"
  by (simp add: stopped_after_safety_def)

lemma evaluate_by_tiers_stops:
  assumes e: "safety_engine self = Some e"
    and b: "is_blocked (fst (SafetyRuleEngine_evaluate e request))"
    and r: "list_ex (\<lambda>r. tier r = SAFETY) rules"
  shows "stopped_after_safety self (evaluate_by_tiers self request rules)"
proof -
  from r obtain tier_rules where g: "group_rules rules Map.empty SAFETY = Some tier_rules"
    using group_rules_dom [of rules Map.empty SAFETY] by auto
  define treq where "treq =
    \<lparr> content = content request, request_context = request_context request,
      rule_ids = Some (map ident tier_rules), request_tier = None, rule_types = None,
      early_termination = True \<rparr>"
  have c: "SafetyRuleEngine_evaluate e treq = SafetyRuleEngine_evaluate e request"
    by (rule safety_engine_content) (simp add: treq_def)
  have run: "run_tier_engine SAFETY self treq =
      Some (fst (SafetyRuleEngine_evaluate e request),
            self\<lparr> safety_engine := Some (snd (SafetyRuleEngine_evaluate e request)) \<rparr>)"
    by (simp add: e c case_prod_beta)
  have loop: "tier_loop self request (group_rules rules Map.empty)
                (empty_lists_result True 1.0 1.0) [SAFETY, OPERATIONAL, PREFERENCE]
      = (merge_tier_result (empty_lists_result True 1.0 1.0)
           (fst (SafetyRuleEngine_evaluate e request)),
         self\<lparr> safety_engine := Some (snd (SafetyRuleEngine_evaluate e request)) \<rparr>)"
    using run stopped_merge(2) [OF e b]
    by (simp add: g treq_def [symmetric] Let_def del: run_tier_engine.simps)
  show ?thesis
    unfolding evaluate_by_tiers_def loop
    using stopped_finalize [OF stopped_merge(1) [OF e b]] by simp
qed

lemma evaluate_tiered_stops:
  assumes e: "safety_engine self = Some e"
    and b: "is_blocked (fst (SafetyRuleEngine_evaluate e request))"
    and t: "request_tier request = None \<or> request_tier request = Some SAFETY"
  shows "stopped_after_safety self (evaluate_tiered self request)"
proof -
  have run: "run_tier_engine SAFETY self request =
      Some (fst (SafetyRuleEngine_evaluate e request),
            self\<lparr> safety_engine := Some (snd (SafetyRuleEngine_evaluate e request)) \<rparr>)"
    by (simp add: e case_prod_beta)
  have "evaluate_tiered self request
      = (merge_tier_result (empty_lists_result True 1.0 1.0)
           (fst (SafetyRuleEngine_evaluate e request)),
         self\<lparr> safety_engine := Some (snd (SafetyRuleEngine_evaluate e request)) \<rparr>)"
    using run stopped_merge(2) [OF e b] t
    by (auto simp add: evaluate_tiered_def Let_def simp del: run_tier_engine.simps)
  then show ?thesis
    using stopped_merge(1) [OF e b] by simp
qed

text \<open>
  The loop does stop after a blocked Safety tier: when the evaluation of the Safety
  tier engine leaves the result blocked, no lower-tier evaluator runs, in
  \<open>_evaluate_by_tiers\<close> when a Safety rule is among the applicable rules and in
  \<open>evaluate_tiered\<close> when the request does not filter the Safety tier out.
\<close>

lemma blocked_safety_stops_lower_tiers:
  assumes "safety_engine self = Some e"
    and "is_blocked (fst (SafetyRuleEngine_evaluate e request))"
  shows "(list_ex (\<lambda>r. tier r = SAFETY) rules \<longrightarrow>
            stopped_after_safety self (evaluate_by_tiers self request rules)) \<and>
         (request_tier request = None \<or> request_tier request = Some SAFETY \<longrightarrow>
            stopped_after_safety self (evaluate_tiered self request))"
  using evaluate_by_tiers_stops [OF assms] evaluate_tiered_stops [OF assms] by blast

lemma weapons_request_scans:
  "\<not> list_ex (\<lambda>p. str_contains (str_lower (content weapons_request)) (fst p)) safety_patterns"
  "str_contains (str_lower (content weapons_request)) ''informal tone''"
  "\<not> str_contains (str_lower (content weapons_request)) ''no formatting''"
  by code_simp+

text \<open>
  C4 (the code departs from the claim): for content that matches a Safety rule and a
  Preference rule the result is to hold the Safety violation among its critical
  violations and no suggestion.  \<open>_evaluate_by_tiers\<close> hands the ids of the Safety rules
  to the Safety tier engine, which does not read them and scans its own pattern table:
  content that matches the keyword of the Safety rule and no pattern of the table
  leaves the result unblocked, the Preference engine runs, and the result has a
  suggestion and no critical violation.
\<close>

theorem safety_rule_match_not_blocked:
  "tier weapons_rule = SAFETY \<and> tier tone_rule = PREFERENCE \<and>
   pattern_matches weapons_rule (content weapons_request) \<and>
   pattern_matches tone_rule (content weapons_request) \<and>
   early_termination weapons_request \<and>
   critical_violations
     (fst (evaluate_by_tiers (RuleEngine_init None) weapons_request [weapons_rule, tone_rule])) = [] \<and>
   suggestions
     (fst (evaluate_by_tiers (RuleEngine_init None) weapons_request [weapons_rule, tone_rule])) \<noteq> [] \<and>
   \<not> is_blocked
     (fst (evaluate_by_tiers (RuleEngine_init None) weapons_request [weapons_rule, tone_rule]))"
proof -
  have m1: "pattern_matches weapons_rule (content weapons_request)" by code_simp
  have m2: "pattern_matches tone_rule (content weapons_request)" by code_simp
  have s: "safety_scan (str_lower (content weapons_request)) safety_patterns acc = acc" for acc
    using weapons_request_scans(1) by (cases acc) (simp add: safety_patterns_def)
  have p: "suggestions (fst (preference_scan (str_lower (content weapons_request))
              preference_patterns (res, st))) \<noteq> []" for res st
    using weapons_request_scans(2,3) by (simp add: preference_patterns_def Let_def)
  have pc: "critical_violations (fst (preference_scan (str_lower (content weapons_request))
              preference_patterns (res, st))) = critical_violations res" for res st
    using weapons_request_scans(2,3) by (simp add: preference_patterns_def Let_def)
  have pv: "violations (fst (preference_scan (str_lower (content weapons_request))
              preference_patterns (res, st))) = violations res" for res st
    using weapons_request_scans(2,3) by (simp add: preference_patterns_def Let_def)
  have g: "group_rules [weapons_rule, tone_rule] Map.empty
             = [SAFETY \<mapsto> [weapons_rule], PREFERENCE \<mapsto> [tone_rule]]"
    by (simp add: weapons_rule_def tone_rule_def)
  show ?thesis
    using m1 m2
    apply (simp add: evaluate_by_tiers_def g RuleEngine_init_def Let_def
        SafetyRuleEngine_evaluate_def PreferenceRuleEngine_evaluate_def s case_prod_beta
        merge_tier_result_def empty_lists_result_def is_blocked_def p pc pv)
    apply (simp add: weapons_rule_def tone_rule_def weapons_request_def plain_request_def)
    done
qed

end
